theory Spec2Isabelle
  imports Main
begin

section \<open>Python values\<close>

text \<open>
  A Python \<open>str\<close> is a sequence of Unicode code points, so a string is a list of
  naturals. \<open>u\<close> turns an ASCII literal into such a list; text of the source that is
  not ASCII is written by its code points.
\<close>

type_synonym pystr = "nat list"

definition u :: "string \<Rightarrow> pystr" where
  "u s = map of_char s"

text \<open>The apostrophe, which the interpreter's error messages quote type names with.\<close>

definition apos :: pystr where
  "apos = [0x27]"

text \<open>\<open>str(n)\<close> for a non-negative integer: its decimal digits.\<close>

fun str_nat :: "nat \<Rightarrow> pystr" where
  "str_nat n = (if n < 10 then [48 + n] else str_nat (n div 10) @ [48 + n mod 10])"

declare str_nat.simps [simp del]

text \<open>Zero padding to a minimum width, as \<open>%02d\<close> and \<open>%06d\<close> do.\<close>

definition zfill :: "nat \<Rightarrow> pystr \<Rightarrow> pystr" where
  "zfill k s = replicate (k - length s) 48 @ s"

text \<open>
  The values \<open>response.json()\<close> and \<open>json.load\<close> produce: \<open>None\<close>, booleans,
  integers, floats (mantissa and binary exponent; no operation of the program looks inside
  one), strings, lists, and dicts with string keys in insertion order.
\<close>

datatype json =
    JNull
  | JBool bool
  | JInt int
  | JFloat int int
  | JStr pystr
  | JArr "json list"
  | JObj "(pystr \<times> json) list"

fun type_name :: "json \<Rightarrow> pystr" where
  "type_name JNull = u ''NoneType''"
| "type_name (JBool b) = u ''bool''"
| "type_name (JInt i) = u ''int''"
| "type_name (JFloat m e) = u ''float''"
| "type_name (JStr s) = u ''str''"
| "type_name (JArr xs) = u ''list''"
| "type_name (JObj kvs) = u ''dict''"

text \<open>
  The exceptions the program meets, each with the text \<open>str(e)\<close> gives.
  \<open>RequestException\<close> stands for \<open>requests.exceptions.RequestException\<close> and its
  subclasses (\<open>ConnectionError\<close>, \<open>Timeout\<close>, \<open>HTTPError\<close>, the library's own
  \<open>JSONDecodeError\<close>); \<open>JSONDecodeError\<close> is \<open>json.JSONDecodeError\<close>;
  \<open>OSError\<close> is an \<open>OSError\<close> that is neither a \<open>PermissionError\<close> nor a
  \<open>FileNotFoundError\<close>. All of them are subclasses of \<open>Exception\<close>.
\<close>

datatype exn =
    RequestException pystr
  | JSONDecodeError pystr
  | FileNotFoundError pystr
  | PermissionError pystr
  | OSError pystr
  | UnicodeDecodeError pystr
  | TypeError pystr
  | KeyError pystr
  | AttributeError pystr

fun str_exn :: "exn \<Rightarrow> pystr" where
  "str_exn (RequestException m) = m"
| "str_exn (JSONDecodeError m) = m"
| "str_exn (FileNotFoundError m) = m"
| "str_exn (PermissionError m) = m"
| "str_exn (OSError m) = m"
| "str_exn (UnicodeDecodeError m) = m"
| "str_exn (TypeError m) = m"
| "str_exn (KeyError m) = m"
| "str_exn (AttributeError m) = m"

subsection \<open>Operators of the language on these values\<close>

text \<open>\<open>s in t\<close> for two strings: \<open>s\<close> occurs in \<open>t\<close> as a contiguous piece.\<close>

fun substring :: "pystr \<Rightarrow> pystr \<Rightarrow> bool" where
  "substring s [] = (s = [])"
| "substring s (c # cs) = (take (length s) (c # cs) = s \<or> substring s cs)"

text \<open>
  \<open>k in v\<close> for a string \<open>k\<close>: key membership in a dict, element membership in a list,
  substring test in a string, and a \<open>TypeError\<close> on \<open>None\<close>, a boolean or a number
  (wording of CPython 3.11).
\<close>

fun py_in :: "pystr \<Rightarrow> json \<Rightarrow> exn + bool" where
  "py_in k (JObj kvs) = Inr (map_of kvs k \<noteq> None)"
| "py_in k (JArr xs) = Inr (List.member xs (JStr k))"
| "py_in k (JStr s) = Inr (substring k s)"
| "py_in k v =
     Inl (TypeError (u ''argument of type '' @ apos @ type_name v @ apos @ u '' is not iterable''))"

text \<open>\<open>v[k]\<close> for a string \<open>k\<close>: only a dict can be indexed by a string.\<close>

fun py_getitem :: "json \<Rightarrow> pystr \<Rightarrow> exn + json" where
  "py_getitem (JObj kvs) k =
     (case map_of kvs k of Some v \<Rightarrow> Inr v | None \<Rightarrow> Inl (KeyError (apos @ k @ apos)))"
| "py_getitem (JArr xs) k =
     Inl (TypeError (u ''list indices must be integers or slices, not str''))"
| "py_getitem (JStr s) k =
     Inl (TypeError (u ''string indices must be integers, not '' @ apos @ u ''str'' @ apos))"
| "py_getitem v k =
     Inl (TypeError (apos @ type_name v @ apos @ u '' object is not subscriptable''))"

text \<open>\<open>v.append(x)\<close>: only a list has the method.\<close>

fun py_append :: "json \<Rightarrow> json \<Rightarrow> exn + json" where
  "py_append (JArr xs) x = Inr (JArr (xs @ [x]))"
| "py_append v x =
     Inl (AttributeError (apos @ type_name v @ apos @ u '' object has no attribute ''
            @ apos @ u ''append'' @ apos))"

text \<open>\<open>str.isspace\<close> on one code point, and \<open>str.strip()\<close>, \<open>str.rstrip(chars)\<close>.\<close>

definition isspace :: "nat \<Rightarrow> bool" where
  "isspace c \<longleftrightarrow>
     (0x9 \<le> c \<and> c \<le> 0xD) \<or> (0x1C \<le> c \<and> c \<le> 0x20) \<or> c = 0x85 \<or> c = 0xA0 \<or> c = 0x1680
     \<or> (0x2000 \<le> c \<and> c \<le> 0x200A) \<or> c = 0x2028 \<or> c = 0x2029 \<or> c = 0x202F \<or> c = 0x205F
     \<or> c = 0x3000"

definition rstrip :: "(nat \<Rightarrow> bool) \<Rightarrow> pystr \<Rightarrow> pystr" where
  "rstrip p s = rev (dropWhile p (rev s))"

definition strip :: "pystr \<Rightarrow> pystr" where
  "strip s = rstrip isspace (dropWhile isspace s)"

text \<open>\<open>os.path.join\<close> of a directory and a relative name (POSIX rules).\<close>

definition path_join :: "pystr \<Rightarrow> pystr \<Rightarrow> pystr" where
  "path_join a b = (if a = [] \<or> last a = 0x2F then a @ b else a @ u ''/'' @ b)"

text \<open>Truthiness of an optional string: \<open>None\<close> and the empty string are false.\<close>

fun truthy :: "pystr option \<Rightarrow> bool" where
  "truthy None = False"
| "truthy (Some s) = (s \<noteq> [])"

subsection \<open>Dates\<close>

record datetime =
  year :: nat
  month :: nat
  day :: nat
  hour :: nat
  minute :: nat
  second :: nat
  microsecond :: nat



text \<open>\<open>isoformat()\<close>: the fraction is left out when the microseconds are zero.\<close>

definition isoformat :: "datetime \<Rightarrow> pystr" where
  "isoformat t =
     zfill 4 (str_nat (year t)) @ u ''-'' @ zfill 2 (str_nat (month t)) @ u ''-''
     @ zfill 2 (str_nat (day t)) @ u ''T'' @ zfill 2 (str_nat (hour t)) @ u '':''
     @ zfill 2 (str_nat (minute t)) @ u '':'' @ zfill 2 (str_nat (second t))
     @ (if microsecond t = 0 then [] else u ''.'' @ zfill 6 (str_nat (microsecond t)))"

section \<open>The world outside the program\<close>

text \<open>
  What the HTTP library does with one \<open>session.post\<close>, \<open>raise_for_status\<close> and
  \<open>response.json\<close>: the first call that raises ends the exchange with its exception,
  otherwise the decoded body is the result. For a connection failure, a 4xx or 5xx status
  and a body that is not JSON the library raises subclasses of \<open>RequestException\<close>.
\<close>

datatype http_outcome =
    PostRaises exn
  | StatusRaises exn
  | JsonRaises exn
  | JsonBody json

record request =
  endpoint :: pystr
  req_headers :: "(pystr \<times> pystr) list"
  body :: json

text \<open>
  A file written by the program: the encoding it was opened with and what was dumped into
  it. A log file holds text that \<open>json.load\<close> either parses to a value or rejects with
  \<open>json.JSONDecodeError\<close>; a report holds the rows given to \<open>csv.writer\<close>.
\<close>

datatype json_text = Parses json | Malformed pystr

record 'a stored_file =
  encoding :: pystr
  content :: 'a

text \<open>
  What opening a text file and iterating over its lines gives: \<open>open\<close> raises, or some
  lines are produced and then the file ends or a read raises.
\<close>

datatype file_read = OpenRaises exn | Yields "pystr list" "exn option"

text \<open>
  The state the program runs in. \<open>read_err\<close> and \<open>write_err\<close> give, for a path, the
  exception that opening the existing file for reading (and reading it), or opening the
  path for writing, raises, if any. \<open>clock\<close> is the sequence of readings of
  \<open>datetime.now()\<close>, \<open>ticks\<close> the number taken so far. \<open>server\<close> answers a request
  given the requests before it; \<open>sent\<close> is the list of requests posted. \<open>py_repr\<close> is
  the interpreter's \<open>str()\<close> on values that are not strings.
\<close>

record world =
  json_files :: "pystr \<Rightarrow> json_text stored_file option"
  csv_files :: "pystr \<Rightarrow> json list list stored_file option"
  text_input :: "pystr \<Rightarrow> file_read"
  read_err :: "pystr \<Rightarrow> exn option"
  write_err :: "pystr \<Rightarrow> exn option"
  stdout :: "pystr list"
  clock :: "nat \<Rightarrow> datetime"
  ticks :: nat
  server :: "request list \<Rightarrow> request \<Rightarrow> http_outcome"
  sent :: "request list"
  environ :: "pystr \<Rightarrow> pystr option"
  script_dir :: pystr
  home :: pystr
  py_repr :: "json \<Rightarrow> pystr"

definition print :: "pystr \<Rightarrow> world \<Rightarrow> world" where
  "print s w = w\<lparr>stdout := stdout w @ [s]\<rparr>"

definition now :: "world \<Rightarrow> datetime \<times> world" where
  "now w = (clock w (ticks w), w\<lparr>ticks := Suc (ticks w)\<rparr>)"

text \<open>\<open>str(v)\<close>, as an f-string applies it: a string is itself.\<close>

definition py_str :: "world \<Rightarrow> json \<Rightarrow> pystr" where
  "py_str w v = (case v of JStr s \<Rightarrow> s | _ \<Rightarrow> py_repr w v)"

text \<open>\<open>os.getenv(name, default)\<close>.\<close>

definition getenv_default :: "world \<Rightarrow> pystr \<Rightarrow> pystr \<Rightarrow> pystr" where
  "getenv_default w name d = (case environ w name of Some v \<Rightarrow> v | None \<Rightarrow> d)"

text \<open>\<open>os.path.join(os.path.expanduser("~"), "Desktop")\<close> followed by a file name.\<close>

definition desktop_file :: "world \<Rightarrow> pystr \<Rightarrow> pystr" where
  "desktop_file w name = path_join (path_join (home w) (u ''Desktop'')) name"

text \<open>
  \<open>with open(path, 'w', encoding='utf-8') as f: json.dump(v, f, ...)\<close> and the same
  with \<open>csv.writer\<close>: the exception raised, or the world with the file replaced.
\<close>

definition write_json :: "pystr \<Rightarrow> json \<Rightarrow> world \<Rightarrow> exn + world" where
  "write_json path v w =
     (case write_err w path of
        Some e \<Rightarrow> Inl e
      | None \<Rightarrow> Inr (w\<lparr>json_files := (json_files w)
                  (path \<mapsto> \<lparr>encoding = u ''utf-8'', content = Parses v\<rparr>)\<rparr>))"


text \<open>
  \<open>with open(path, 'r', encoding='utf-8') as f: json.load(f)\<close>: a missing file is a
  \<open>FileNotFoundError\<close>, text that is not JSON a \<open>json.JSONDecodeError\<close>.
\<close>

definition read_json :: "pystr \<Rightarrow> world \<Rightarrow> exn + json" where
  "read_json path w =
     (case json_files w path of
        None \<Rightarrow> Inl (FileNotFoundError path)
      | Some f \<Rightarrow>
          (case read_err w path of
             Some e \<Rightarrow> Inl e
           | None \<Rightarrow> (case content f of Parses v \<Rightarrow> Inr v | Malformed m \<Rightarrow> Inl (JSONDecodeError m))))"

section \<open>The chat client (dify_client.py)\<close>

record client =
  base_url :: pystr
  api_key :: "pystr option"
  session_headers :: "(pystr \<times> pystr) list"
  log_file :: pystr

text \<open>
  \<open>DifyClient.__init__\<close>: an argument that is \<open>None\<close> or empty gives way to the
  environment; trailing slashes of the base URL are stripped.
\<close>

definition DifyClient_init :: "pystr option \<Rightarrow> pystr option \<Rightarrow> world \<Rightarrow> client" where
  "DifyClient_init base_url_arg api_key_arg w =
     (let b = (if truthy base_url_arg then the base_url_arg
               else getenv_default w (u ''DIFY_BASE_URL'') (u ''http://localhost/v1''));
          k = (if truthy api_key_arg then api_key_arg else environ w (u ''DIFY_API_KEY''))
      in \<lparr>base_url = rstrip (\<lambda>c. c = 0x2F) b,
          api_key = k,
          session_headers =
            (if truthy k
             then [(u ''Authorization'', u ''Bearer '' @ the k),
                   (u ''Content-Type'', u ''application/json'')]
             else []),
          log_file = path_join (script_dir w) (u ''dify_chat_log.json'')\<rparr>)"

text \<open>The messages of \<open>_log_interaction\<close> (lines 108, 109, 116, 118 and 120).\<close>

definition msg_log_permission :: pystr where
  "msg_log_permission = [0x8B66, 0x544A] @ u '': '' @ [0x30ED, 0x30B0, 0x30D5, 0x30A1, 0x30A4, 0x30EB, 0x4FDD, 0x5B58, 0x6A29, 0x9650, 0x30A8, 0x30E9, 0x30FC] @ u '': ''"

definition msg_log_path :: pystr where
  "msg_log_path = [0x30ED, 0x30B0, 0x30D5, 0x30A1, 0x30A4, 0x30EB, 0x30D1, 0x30B9] @ u '': ''"

definition msg_log_desktop_saved :: pystr where
  "msg_log_desktop_saved = [0x30ED, 0x30B0, 0x3092, 0x30C7, 0x30B9, 0x30AF, 0x30C8, 0x30C3, 0x30D7, 0x306B, 0x4FDD, 0x5B58, 0x3057, 0x307E, 0x3057, 0x305F] @ u '': ''"

definition msg_log_desktop_failed :: pystr where
  "msg_log_desktop_failed = [0x30C7, 0x30B9, 0x30AF, 0x30C8, 0x30C3, 0x30D7, 0x4FDD, 0x5B58, 0x3082, 0x5931, 0x6557] @ u '': ''"

definition msg_log_save_error :: pystr where
  "msg_log_save_error = [0x8B66, 0x544A] @ u '': '' @ [0x30ED, 0x30B0, 0x30D5, 0x30A1, 0x30A4, 0x30EB, 0x4FDD, 0x5B58, 0x30A8, 0x30E9, 0x30FC] @ u '': ''"

text \<open>
  Lines 92 to 99: the list to append to. Only a \<open>json.JSONDecodeError\<close> and a
  \<open>FileNotFoundError\<close> are caught; any other exception of the read leaves the function.
\<close>

definition load_logs :: "client \<Rightarrow> world \<Rightarrow> exn + json" where
  "load_logs c w =
     (if json_files w (log_file c) \<noteq> None
      then (case read_json (log_file c) w of
              Inr v \<Rightarrow> Inr v
            | Inl (JSONDecodeError m) \<Rightarrow> Inr (JArr [])
            | Inl (FileNotFoundError m) \<Rightarrow> Inr (JArr [])
            | Inl e \<Rightarrow> Inl e)
      else Inr (JArr []))"

text \<open>
  Lines 103 to 120: the write to the log file; on a \<open>PermissionError\<close> two lines are
  printed and the same list is written to the desktop; any other exception prints one
  warning. Nothing leaves this part.
\<close>

definition save_logs :: "client \<Rightarrow> json \<Rightarrow> world \<Rightarrow> world" where
  "save_logs c logs w =
     (case write_json (log_file c) logs w of
        Inr w1 \<Rightarrow> w1
      | Inl (PermissionError m) \<Rightarrow>
          (let w1 = print (msg_log_permission @ m) w;
               w2 = print (msg_log_path @ log_file c) w1;
               desktop_log_file = desktop_file w2 (u ''dify_chat_log.json'')
           in case write_json desktop_log_file logs w2 of
                Inr w3 \<Rightarrow> print (msg_log_desktop_saved @ desktop_log_file) w3
              | Inl e2 \<Rightarrow> print (msg_log_desktop_failed @ str_exn e2) w2)
      | Inl e \<Rightarrow> print (msg_log_save_error @ str_exn e) w)"

text \<open>The entry of lines 86 to 90, stamped with the reading of the clock.\<close>

definition log_entry :: "datetime \<Rightarrow> pystr \<Rightarrow> json \<Rightarrow> json" where
  "log_entry t q response =
     JObj [(u ''timestamp'', JStr (isoformat t)),
           (u ''question'', JStr q),
           (u ''response'', response)]"

text \<open>
  \<open>_log_interaction\<close>: the entry is made, the list is loaded, the entry appended and
  the list saved. The result is the exception that leaves the function, if any.
\<close>

definition log_interaction :: "client \<Rightarrow> pystr \<Rightarrow> json \<Rightarrow> world \<Rightarrow> exn option \<times> world" where
  "log_interaction c q response w =
     (let (t, w1) = now w
      in case load_logs c w1 of
           Inl e \<Rightarrow> (Some e, w1)
         | Inr logs \<Rightarrow>
             (case py_append logs (log_entry t q response) of
                Inl e \<Rightarrow> (Some e, w1)
              | Inr logs' \<Rightarrow> (None, save_logs c logs' w1)))"

text \<open>
  The handler of \<open>send_message\<close> (lines 73 to 76): a \<open>RequestException\<close> becomes a
  dict with an \<open>error\<close> field; anything else is not caught.
\<close>

definition request_failed :: "exn \<Rightarrow> world \<Rightarrow> (exn + json) \<times> world" where
  "request_failed e w =
     (case e of
        RequestException m \<Rightarrow>
          (let error_msg = u ''API request failed: '' @ m
           in (Inr (JObj [(u ''error'', JStr error_msg)]), print error_msg w))
      | _ \<Rightarrow> (Inl e, w))"

text \<open>
  The request of \<open>send_message\<close> (lines 52 to 60): the endpoint, the headers of the
  session and the payload.
\<close>

definition chat_request :: "client \<Rightarrow> pystr \<Rightarrow> pystr \<Rightarrow> pystr option \<Rightarrow> request" where
  "chat_request c message user_id conversation_id =
     \<lparr>endpoint = base_url c @ u ''/chat-messages'',
      req_headers = session_headers c,
      body = JObj [(u ''inputs'', JObj []),
                   (u ''query'', JStr message),
                   (u ''response_mode'', JStr (u ''blocking'')),
                   (u ''conversation_id'',
                      (case conversation_id of None \<Rightarrow> JNull | Some i \<Rightarrow> JStr i)),
                   (u ''user'', JStr user_id)]\<rparr>"

definition session_post :: "request \<Rightarrow> world \<Rightarrow> http_outcome \<times> world" where
  "session_post r w = (server w (sent w) r, w\<lparr>sent := sent w @ [r]\<rparr>)"

text \<open>
  \<open>send_message\<close>: everything from the post to the logging is inside the \<open>try\<close>,
  so an exception of \<open>_log_interaction\<close> meets the same handler.
\<close>

definition send_message ::
  "client \<Rightarrow> pystr \<Rightarrow> pystr \<Rightarrow> pystr option \<Rightarrow> world \<Rightarrow> (exn + json) \<times> world" where
  "send_message c message user_id conversation_id w =
     (let (outcome, w1) = session_post (chat_request c message user_id conversation_id) w
      in case outcome of
           PostRaises e \<Rightarrow> request_failed e w1
         | StatusRaises e \<Rightarrow> request_failed e w1
         | JsonRaises e \<Rightarrow> request_failed e w1
         | JsonBody result \<Rightarrow>
             (case log_interaction c message result w1 of
                (Some e, w2) \<Rightarrow> request_failed e w2
              | (None, w2) \<Rightarrow> (Inr result, w2)))"

text \<open>
  Lines 134 to 143 of \<open>get_answer\<close>, with the \<open>str()\<close> the f-string applies: the
  shapes are tried in the order of the source, and \<open>and\<close> evaluates its right operand
  only when the left one holds.
\<close>

definition answer_of :: "(json \<Rightarrow> pystr) \<Rightarrow> json \<Rightarrow> exn + json" where
  "answer_of str_of result =
     (case py_in (u ''error'') result of
        Inl e \<Rightarrow> Inl e
      | Inr True \<Rightarrow>
          (case py_getitem result (u ''error'') of
             Inl e \<Rightarrow> Inl e
           | Inr v \<Rightarrow> Inr (JStr (u ''Error: '' @ str_of v)))
      | Inr False \<Rightarrow>
          (case py_in (u ''answer'') result of
             Inl e \<Rightarrow> Inl e
           | Inr True \<Rightarrow> py_getitem result (u ''answer'')
           | Inr False \<Rightarrow>
               (case py_in (u ''data'') result of
                  Inl e \<Rightarrow> Inl e
                | Inr False \<Rightarrow> Inr (JStr (u ''No answer found in response''))
                | Inr True \<Rightarrow>
                    (case py_getitem result (u ''data'') of
                       Inl e \<Rightarrow> Inl e
                     | Inr d \<Rightarrow>
                         (case py_in (u ''answer'') d of
                            Inl e \<Rightarrow> Inl e
                          | Inr False \<Rightarrow> Inr (JStr (u ''No answer found in response''))
                          | Inr True \<Rightarrow>
                              (case py_getitem d (u ''answer'') of
                                 Inl e \<Rightarrow> Inl e
                               | Inr a \<Rightarrow> Inr a))))))"

definition get_answer :: "client \<Rightarrow> pystr \<Rightarrow> world \<Rightarrow> (exn + json) \<times> world" where
  "get_answer c q w =
     (case send_message c q (u ''user'') None w of
        (Inl e, w1) \<Rightarrow> (Inl e, w1)
      | (Inr result, w1) \<Rightarrow> (answer_of (py_str w1) result, w1))"

section \<open>The batch runner (question_batch.py)\<close>

definition msg_questions_read_error :: pystr where
  "msg_questions_read_error = [0x274C] @ u '' '' @ [0x8CEA, 0x554F, 0x30D5, 0x30A1, 0x30A4, 0x30EB, 0x306E, 0x8AAD, 0x307F, 0x8FBC, 0x307F, 0x30A8, 0x30E9, 0x30FC] @ u '': ''"

text \<open>
  The loop of \<open>load_questions_from_file\<close> over the lines read, with the list built so
  far: a line is stripped and kept when something is left of it.
\<close>

fun collect_questions :: "pystr list \<Rightarrow> pystr list \<Rightarrow> pystr list" where
  "collect_questions [] questions = questions"
| "collect_questions (line # rest) questions =
     (let q = strip line
      in if q \<noteq> [] then collect_questions rest (questions @ [q])
         else collect_questions rest questions)"

text \<open>
  \<open>load_questions_from_file\<close>: the list starts empty before the \<open>try\<close> and is
  returned after it, so an exception leaves in it what was collected before.
\<close>

definition load_questions_from_file :: "pystr \<Rightarrow> world \<Rightarrow> pystr list \<times> world" where
  "load_questions_from_file filepath w =
     (case text_input w filepath of
        OpenRaises e \<Rightarrow> ([], print (msg_questions_read_error @ str_exn e) w)
      | Yields ls None \<Rightarrow> (collect_questions ls [], w)
      | Yields ls (Some e) \<Rightarrow>
          (collect_questions ls [], print (msg_questions_read_error @ str_exn e) w))"

text \<open>One collected answer: the dict the main loop appends to \<open>answers_only\<close>.\<close>

record row =
  question_number :: nat
  question :: pystr
  answer :: json
  timestamp :: pystr














text \<open>The answer recorded for question \<open>i\<close> when its call raised \<open>e\<close> (line 165).\<close>

definition error_msg :: "nat \<Rightarrow> exn \<Rightarrow> pystr" where
  "error_msg i e =
     [0x8CEA, 0x554F] @ str_nat i @ [0x3067, 0x30A8, 0x30E9, 0x30FC] @ u '': '' @ str_exn e"

text \<open>
  The body of the main loop (lines 149 to 176) for question \<open>i\<close>: the row appended and
  the world after it. Both branches of the \<open>try\<close> append a row.
\<close>

definition process_question :: "client \<Rightarrow> nat \<Rightarrow> pystr \<Rightarrow> world \<Rightarrow> row \<times> world" where
  "process_question c i q w =
     (let w1 = print ([0xA] @ u ''['' @ str_nat i @ u ''] Question: '' @ q) w
      in case get_answer c q w1 of
           (Inr a, w2) \<Rightarrow>
             (let w3 = print (u ''Answer: '' @ py_str w2 a) w2;
                  (t, w4) = now w3
              in (\<lparr>question_number = i, question = q, answer = a, timestamp = isoformat t\<rparr>,
                  print (replicate 50 0x2D) w4))
         | (Inl e, w2) \<Rightarrow>
             (let w3 = print (u ''Answer: '' @ error_msg i e) w2;
                  (t, w4) = now w3
              in (\<lparr>question_number = i, question = q, answer = JStr (error_msg i e),
                   timestamp = isoformat t\<rparr>,
                  print (replicate 50 0x2D) w4)))"

text \<open>
  The main loop (lines 146 to 176) over \<open>enumerate(questions, 1)\<close>, with the list
  \<open>answers_only\<close> built so far.
\<close>

fun batch_loop :: "client \<Rightarrow> (nat \<times> pystr) list \<Rightarrow> row list \<Rightarrow> world \<Rightarrow> row list \<times> world" where
  "batch_loop c [] answers_only w = (answers_only, w)"
| "batch_loop c ((i, q) # rest) answers_only w =
     (let (r, w1) = process_question c i q w
      in batch_loop c rest (answers_only @ [r]) w1)"

section \<open>Observations and sample inputs\<close>





text \<open>
  The answer as the specification words it, for a response that is a dict: an \<open>error\<close>
  field first, then a top-level \<open>answer\<close>, then an \<open>answer\<close> inside \<open>data\<close>, and the
  fixed string when none of them is there.
\<close>

definition spec_answer :: "(json \<Rightarrow> pystr) \<Rightarrow> (pystr \<times> json) list \<Rightarrow> json" where
  "spec_answer str_of kvs =
     (case map_of kvs (u ''error'') of
        Some v \<Rightarrow> JStr (u ''Error: '' @ str_of v)
      | None \<Rightarrow>
          (case map_of kvs (u ''answer'') of
             Some a \<Rightarrow> a
           | None \<Rightarrow>
               (case map_of kvs (u ''data'') of
                  Some (JObj d) \<Rightarrow>
                    (case map_of d (u ''answer'') of
                       Some a \<Rightarrow> a
                     | None \<Rightarrow> JStr (u ''No answer found in response''))
                | _ \<Rightarrow> JStr (u ''No answer found in response''))))"

text \<open>The \<open>data\<close> field of a dict is missing or is itself a dict.\<close>

definition data_is_dict :: "(pystr \<times> json) list \<Rightarrow> bool" where
  "data_is_dict kvs \<longleftrightarrow>
     (case map_of kvs (u ''data'') of None \<Rightarrow> True | Some (JObj d) \<Rightarrow> True | Some _ \<Rightarrow> False)"

text \<open>
  A sample world: no files, nothing denied, a clock that ticks seconds, and a server that
  gives the same outcome to every request; and the client made in it with a key.
\<close>

definition demo_clock :: "nat \<Rightarrow> datetime" where
  "demo_clock n =
     \<lparr>year = 2025, month = 1, day = 2, hour = 3, minute = 4, second = n, microsecond = 0\<rparr>"

definition demo_world :: "http_outcome \<Rightarrow> world" where
  "demo_world outcome =
     \<lparr>json_files = Map.empty, csv_files = Map.empty,
      text_input = (\<lambda>p. OpenRaises (FileNotFoundError p)),
      read_err = (\<lambda>p. None), write_err = (\<lambda>p. None),
      stdout = [], clock = demo_clock, ticks = 0,
      server = (\<lambda>history r. outcome), sent = [],
      environ = Map.empty, script_dir = u ''/app'', home = u ''/home/me'',
      py_repr = type_name\<rparr>"

definition demo_client :: client where
  "demo_client = DifyClient_init None (Some (u ''key'')) (demo_world (JsonBody JNull))"

text \<open>
  The world in which \<open>get_answer\<close> is called for the question at position \<open>k\<close>
  (counted from 0) of a batch: after the iterations for the questions before it, and after
  the heading of this one is printed.
\<close>

definition call_world :: "client \<Rightarrow> pystr list \<Rightarrow> world \<Rightarrow> nat \<Rightarrow> world" where
  "call_world c qs w k =
     print ([0xA] @ u ''['' @ str_nat (Suc k) @ u ''] Question: '' @ qs ! k)
       (snd (batch_loop c (List.enumerate 1 (take k qs)) [] w))"

text \<open>
  The sample world with writes denied: \<open>e\<close> is what opening the log path for writing
  raises, \<open>e2\<close> what opening the desktop log path for writing raises.
\<close>

definition demo_world_denying :: "exn option \<Rightarrow> exn option \<Rightarrow> world" where
  "demo_world_denying e e2 =
     (demo_world (JsonBody JNull))
       \<lparr>write_err := (\<lambda>p. if p = u ''/app/dify_chat_log.json'' then e
                         else if p = u ''/home/me/Desktop/dify_chat_log.json'' then e2
                         else None)\<rparr>"


text \<open>The sample world in which reading any text file gives \<open>fr\<close>.\<close>

definition demo_world_questions :: "file_read \<Rightarrow> world" where
  "demo_world_questions fr = (demo_world (JsonBody JNull))\<lparr>text_input := (\<lambda>p. fr)\<rparr>"

section \<open>Basic facts\<close>

lemma print_fields [simp]:
  "json_files (print s w) = json_files w" "csv_files (print s w) = csv_files w"
  "sent (print s w) = sent w" "ticks (print s w) = ticks w" "clock (print s w) = clock w"
  "write_err (print s w) = write_err w" "read_err (print s w) = read_err w"
  "server (print s w) = server w" "stdout (print s w) = stdout w @ [s]"
  "home (print s w) = home w" "script_dir (print s w) = script_dir w"
  "py_repr (print s w) = py_repr w" "text_input (print s w) = text_input w"
  "environ (print s w) = environ w"
  by (simp_all add: print_def)

lemma read_json_cong:
  "json_files w' = json_files w \<Longrightarrow> read_err w' = read_err w \<Longrightarrow> read_json p w' = read_json p w"
  by (simp add: read_json_def cong: option.case_cong)

lemma load_logs_cong:
  "json_files w' = json_files w \<Longrightarrow> read_err w' = read_err w \<Longrightarrow> load_logs c w' = load_logs c w"
  by (simp add: load_logs_def read_json_cong [of w' w])

lemma log_interaction_loaded:
  assumes "load_logs c w = Inr (JArr es)"
  shows "log_interaction c q r w =
           (None, save_logs c (JArr (es @ [log_entry (clock w (ticks w)) q r]))
                    (w\<lparr>ticks := Suc (ticks w)\<rparr>))"
proof -
  have "load_logs c (w\<lparr>ticks := Suc (ticks w)\<rparr>) = Inr (JArr es)"
    using assms by (simp add: load_logs_cong [of "w\<lparr>ticks := Suc (ticks w)\<rparr>" w])
  then show ?thesis by (simp add: log_interaction_def now_def)
qed





lemma save_logs_sent [simp]: "sent (save_logs c logs w) = sent w"
  by (simp add: save_logs_def write_json_def Let_def split: option.splits exn.splits sum.splits)

lemma log_interaction_sent [simp]: "sent (snd (log_interaction c q r w)) = sent w"
  by (simp add: log_interaction_def now_def split: sum.splits)

lemma request_failed_sent [simp]: "sent (snd (request_failed e w)) = sent w"
  by (simp add: request_failed_def Let_def split: exn.splits)

lemma send_message_sent:
  "sent (snd (send_message c m uid cid w)) = sent w @ [chat_request c m uid cid]"
proof (cases "server w (sent w) (chat_request c m uid cid)")
  case (JsonBody r)
  then show ?thesis
    by (cases "log_interaction c m r (w\<lparr>sent := sent w @ [chat_request c m uid cid]\<rparr>)")
       (auto simp: send_message_def session_post_def split: option.splits
             dest: arg_cong [where f = "\<lambda>p. sent (snd p)"])
qed (simp_all add: send_message_def session_post_def)

lemma rstrip_no_trailing: "rstrip p s = [] \<or> \<not> p (last (rstrip p s))"
proof (cases "dropWhile p (rev s)")
  case Nil
  then show ?thesis by (simp add: rstrip_def)
next
  case (Cons x xs)
  then have "\<not> p x" using hd_dropWhile [of p "rev s"] by fastforce
  with Cons show ?thesis by (simp add: rstrip_def)
qed

lemma rstrip_decomp: "\<exists>t. s = rstrip p s @ t \<and> (\<forall>x\<in>set t. p x)"
proof -
  have "rev s = takeWhile p (rev s) @ dropWhile p (rev s)" by simp
  then have "s = rev (dropWhile p (rev s)) @ rev (takeWhile p (rev s))"
    by (metis rev_append rev_rev_ident)
  moreover have "\<forall>x\<in>set (rev (takeWhile p (rev s))). p x"
    by (auto dest: set_takeWhileD)
  ultimately show ?thesis unfolding rstrip_def by blast
qed

lemma rstrip_snoc: "p x \<Longrightarrow> rstrip p (s @ [x]) = rstrip p s"
  by (simp add: rstrip_def)


lemma send_message_success:
  assumes "server w (sent w) (chat_request c m uid cid) = JsonBody r"
    and "load_logs c w = Inr (JArr es)"
  shows "send_message c m uid cid w =
           (Inr r, save_logs c (JArr (es @ [log_entry (clock w (ticks w)) m r]))
                     (w\<lparr>sent := sent w @ [chat_request c m uid cid], ticks := Suc (ticks w)\<rparr>))"
proof -
  let ?w1 = "w\<lparr>sent := sent w @ [chat_request c m uid cid]\<rparr>"
  have "load_logs c ?w1 = Inr (JArr es)"
    using assms(2) by (simp add: load_logs_cong [of ?w1 w])
  from log_interaction_loaded [OF this, of m r] assms(1)
  show ?thesis by (simp add: send_message_def session_post_def)
qed

lemma send_message_failure:
  assumes "server w (sent w) (chat_request c m uid cid) \<in> {PostRaises e, StatusRaises e, JsonRaises e}"
  shows "send_message c m uid cid w =
           request_failed e (w\<lparr>sent := sent w @ [chat_request c m uid cid]\<rparr>)"
  using assms by (auto simp: send_message_def session_post_def)

lemma request_failed_files [simp]:
  "json_files (snd (request_failed e w)) = json_files w"
  "read_err (snd (request_failed e w)) = read_err w"
  "write_err (snd (request_failed e w)) = write_err w"
  by (simp_all add: request_failed_def Let_def split: exn.splits)


lemma answer_of_dict:
  assumes "map_of kvs (u ''error'') \<noteq> None \<or> map_of kvs (u ''answer'') \<noteq> None \<or> data_is_dict kvs"
  shows "answer_of f (JObj kvs) = Inr (spec_answer f kvs)"
proof (cases "map_of kvs (u ''error'')")
  case (Some v)
  then show ?thesis by (simp add: answer_of_def spec_answer_def)
next
  case None
  note e = None
  show ?thesis
  proof (cases "map_of kvs (u ''answer'')")
    case (Some a)
    with e show ?thesis by (simp add: answer_of_def spec_answer_def)
  next
    case None
    note a = None
    show ?thesis
    proof (cases "map_of kvs (u ''data'')")
      case None
      with e a show ?thesis by (simp add: answer_of_def spec_answer_def)
    next
      case (Some d)
      with e a assms obtain dkvs where d: "d = JObj dkvs"
        by (cases d) (simp_all add: data_is_dict_def)
      show ?thesis
        using e a Some d
        by (cases "map_of dkvs (u ''answer'')") (simp_all add: answer_of_def spec_answer_def)
    qed
  qed
qed

lemma save_logs_py_repr [simp]: "py_repr (save_logs c logs w) = py_repr w"
  by (simp add: save_logs_def write_json_def Let_def split: option.splits exn.splits sum.splits)

lemma request_failed_py_repr [simp]: "py_repr (snd (request_failed e w)) = py_repr w"
  by (simp add: request_failed_def Let_def split: exn.splits)

lemma py_str_cong: "py_repr w' = py_repr w \<Longrightarrow> py_str w' = py_str w"
  by (rule ext) (simp add: py_str_def split: json.splits)


lemma demo_world_simps [simp]:
  "json_files (demo_world x) = Map.empty" "read_err (demo_world x) = (\<lambda>p. None)"
  "write_err (demo_world x) = (\<lambda>p. None)" "server (demo_world x) = (\<lambda>history r. x)"
  "sent (demo_world x) = []" "ticks (demo_world x) = 0" "clock (demo_world x) = demo_clock"
  "stdout (demo_world x) = []" "py_repr (demo_world x) = type_name"
  "script_dir (demo_world x) = u ''/app''" "home (demo_world x) = u ''/home/me''"
  by (simp_all add: demo_world_def)

section \<open>The answer extracted from a response\<close>

text \<open>
  Claim C1. The claim has \<open>get_answer\<close> fall back to the fixed string whenever the
  response has no \<open>error\<close>, no \<open>answer\<close> and no \<open>answer\<close> inside \<open>data\<close>. For
  the response \<open>{"data": null}\<close> the test \<open>"answer" in result["data"]\<close> is made on
  \<open>None\<close>, and \<open>get_answer\<close> raises a \<open>TypeError\<close> instead of returning the string.
\<close>

theorem get_answer_data_null_raises:
  "fst (get_answer demo_client (u ''hi'') (demo_world (JsonBody (JObj [(u ''data'', JNull)]))))
     = Inl (TypeError (u ''argument of type '' @ apos @ u ''NoneType'' @ apos @ u '' is not iterable''))"
  by (simp add: get_answer_def send_message_success [where es = "[]"] load_logs_def
        answer_of_def u_def)

text \<open>
  Claim C3, as stated, fails: for a question that is not empty, the response
  \<open>{"answer": ""}\<close> makes \<open>get_answer\<close> return the empty string.
\<close>

theorem get_answer_returns_empty_answer:
  "fst (get_answer demo_client (u ''hi'') (demo_world (JsonBody (JObj [(u ''answer'', JStr [])]))))
     = Inr (JStr [])"
  by (simp add: get_answer_def send_message_success [where es = "[]"] load_logs_def
        answer_of_def u_def)

text \<open>
  Claim C3, amended. When the exchange fails with a \<open>RequestException\<close>, \<open>get_answer\<close>
  returns the string \<open>Error: API request failed: ...\<close>, which is not empty, and does not
  raise. When the exchange gives a dict in which an \<open>error\<close> or an \<open>answer\<close> is present
  or \<open>data\<close> is missing or a dict, and the log loads as a list, \<open>get_answer\<close> returns,
  without raising, the value the priority order selects: the \<open>Error: \<close> string, the
  answer as the server gave it (so possibly empty, or not a string), or the fixed string.
\<close>

theorem get_answer_on_failures_and_dicts:
  fixes c q w
  defines "outcome \<equiv> server w (sent w) (chat_request c q (u ''user'') None)"
  shows "(outcome \<in> {PostRaises (RequestException m), StatusRaises (RequestException m),
                      JsonRaises (RequestException m)}
            \<longrightarrow> fst (get_answer c q w) = Inr (JStr (u ''Error: API request failed: '' @ m)))
       \<and> (outcome = JsonBody (JObj kvs) \<and> load_logs c w = Inr (JArr es)
            \<and> (map_of kvs (u ''error'') \<noteq> None \<or> map_of kvs (u ''answer'') \<noteq> None
                 \<or> data_is_dict kvs)
            \<longrightarrow> fst (get_answer c q w) = Inr (spec_answer (py_str w) kvs))"
proof (intro conjI impI)
  assume "outcome \<in> {PostRaises (RequestException m), StatusRaises (RequestException m),
                      JsonRaises (RequestException m)}"
  then have "send_message c q (u ''user'') None w =
      (Inr (JObj [(u ''error'', JStr (u ''API request failed: '' @ m))]),
       print (u ''API request failed: '' @ m)
         (w\<lparr>sent := sent w @ [chat_request c q (u ''user'') None]\<rparr>))"
    unfolding outcome_def by (simp add: send_message_failure request_failed_def Let_def)
  then show "fst (get_answer c q w) = Inr (JStr (u ''Error: API request failed: '' @ m))"
    by (simp add: get_answer_def answer_of_def py_str_def u_def)
next
  assume a: "outcome = JsonBody (JObj kvs) \<and> load_logs c w = Inr (JArr es)
            \<and> (map_of kvs (u ''error'') \<noteq> None \<or> map_of kvs (u ''answer'') \<noteq> None
                 \<or> data_is_dict kvs)"
  let ?w2 = "save_logs c (JArr (es @ [log_entry (clock w (ticks w)) q (JObj kvs)]))
               (w\<lparr>sent := sent w @ [chat_request c q (u ''user'') None], ticks := Suc (ticks w)\<rparr>)"
  from a have "send_message c q (u ''user'') None w = (Inr (JObj kvs), ?w2)"
    unfolding outcome_def by (simp add: send_message_success)
  moreover have "py_repr ?w2 = py_repr w" by simp
  ultimately show "fst (get_answer c q w) = Inr (spec_answer (py_str w) kvs)"
    using a by (simp add: get_answer_def answer_of_dict py_str_cong [of ?w2 w])
qed

theorem get_answer_on_failures_and_dicts_witness:
  "fst (get_answer demo_client (u ''hi'')
          (demo_world (JsonBody (JObj [(u ''data'', JObj [(u ''answer'', JStr (u ''hi''))])]))))
     = Inr (JStr (u ''hi''))
   \<and> fst (get_answer demo_client (u ''hi'')
          (demo_world (PostRaises (RequestException (u ''connection refused'')))))
     = Inr (JStr (u ''Error: API request failed: connection refused''))"
  using get_answer_on_failures_and_dicts
          [of "demo_world (JsonBody (JObj [(u ''data'', JObj [(u ''answer'', JStr (u ''hi''))])]))"
              demo_client "u ''hi''" "u ''x''"
              "[(u ''data'', JObj [(u ''answer'', JStr (u ''hi''))])]" "[]"]
        get_answer_on_failures_and_dicts
          [of "demo_world (PostRaises (RequestException (u ''connection refused'')))"
              demo_client "u ''hi''" "u ''connection refused''" "[]" "[]"]
  by (simp add: load_logs_def data_is_dict_def spec_answer_def u_def)

section \<open>Failures of the exchange\<close>

text \<open>
  Claim C5. When the post, the status check or the decoding of the body raises a
  \<open>RequestException\<close>, as the library does for a network error, a 4xx or 5xx status and
  a body that is not JSON, \<open>send_message\<close> returns a dict whose \<open>error\<close> field is the
  message \<open>API request failed: ...\<close>, prints that message, and raises nothing.
\<close>

theorem send_message_catches_request_failures:
  assumes "server w (sent w) (chat_request c message user_id conversation_id)
             \<in> {PostRaises (RequestException m), StatusRaises (RequestException m),
                JsonRaises (RequestException m)}"
  shows "send_message c message user_id conversation_id w =
           (Inr (JObj [(u ''error'', JStr (u ''API request failed: '' @ m))]),
            print (u ''API request failed: '' @ m)
              (w\<lparr>sent := sent w @ [chat_request c message user_id conversation_id]\<rparr>))"
  using assms by (simp add: send_message_failure request_failed_def Let_def)

theorem send_message_catches_request_failures_witness:
  "fst (send_message demo_client (u ''hi'') (u ''user'') None
          (demo_world (StatusRaises (RequestException (u ''500 Server Error'')))))
     = Inr (JObj [(u ''error'', JStr (u ''API request failed: 500 Server Error''))])"
  using send_message_catches_request_failures
          [of "demo_world (StatusRaises (RequestException (u ''500 Server Error'')))"
              demo_client "u ''hi''" "u ''user''" None "u ''500 Server Error''"]
  by (simp add: u_def)

section \<open>The log\<close>




section \<open>The endpoint\<close>

text \<open>
  Claim C10. Whatever base URL is chosen (the argument, or the environment value or the
  default when the argument is missing or empty), the client stores it with all trailing
  slashes removed, the endpoint is the stored URL followed by \<open>/chat-messages\<close>, and that
  is the endpoint of the request every \<open>send_message\<close> posts. A base URL and the same
  URL with a slash appended give the same client.
\<close>

theorem base_url_without_trailing_slash:
  fixes b k w
  defines "chosen \<equiv> (if truthy b then the b
                      else getenv_default w (u ''DIFY_BASE_URL'') (u ''http://localhost/v1''))"
  defines "c \<equiv> DifyClient_init b k w"
  shows "(base_url c = [] \<or> last (base_url c) \<noteq> 0x2F)
       \<and> (\<exists>t. chosen = base_url c @ t \<and> (\<forall>x\<in>set t. x = 0x2F))
       \<and> endpoint (chat_request c m uid cid) = base_url c @ u ''/chat-messages''
       \<and> sent (snd (send_message c m uid cid w')) = sent w' @ [chat_request c m uid cid]
       \<and> (s \<noteq> [] \<longrightarrow> DifyClient_init (Some (s @ u ''/'')) k w = DifyClient_init (Some s) k w)"
proof -
  have bu: "base_url c = rstrip (\<lambda>x. x = 0x2F) chosen"
    by (simp add: c_def chosen_def DifyClient_init_def Let_def)
  have 1: "base_url c = [] \<or> last (base_url c) \<noteq> 0x2F"
    using rstrip_no_trailing [of "\<lambda>x. x = 0x2F" chosen] by (simp add: bu)
  have 2: "\<exists>t. chosen = base_url c @ t \<and> (\<forall>x\<in>set t. x = 0x2F)"
    using rstrip_decomp [of chosen "\<lambda>x. x = 0x2F"] by (simp add: bu)
  have 3: "endpoint (chat_request c m uid cid) = base_url c @ u ''/chat-messages''"
    by (simp add: chat_request_def)
  have 5: "s \<noteq> [] \<longrightarrow> DifyClient_init (Some (s @ u ''/'')) k w = DifyClient_init (Some s) k w"
    by (simp add: DifyClient_init_def u_def rstrip_snoc)
  from 1 2 3 5 send_message_sent show ?thesis by blast
qed

theorem base_url_without_trailing_slash_witness:
  "base_url (DifyClient_init (Some (u ''http://localhost/v1/'')) None (demo_world (JsonBody JNull)))
     = u ''http://localhost/v1''
   \<and> endpoint (chat_request
         (DifyClient_init (Some (u ''http://localhost/v1/'')) None (demo_world (JsonBody JNull)))
         (u ''hi'') (u ''user'') None)
     = u ''http://localhost/v1/chat-messages''
   \<and> DifyClient_init (Some (u ''http://localhost/v1/'')) None (demo_world (JsonBody JNull))
     = DifyClient_init (Some (u ''http://localhost/v1'')) None (demo_world (JsonBody JNull))"
  using base_url_without_trailing_slash
          [where b = "Some (u ''http://localhost/v1/'')" and k = None
             and w = "demo_world (JsonBody JNull)" and m = "u ''hi''" and uid = "u ''user''"
             and cid = None and w' = "demo_world (JsonBody JNull)"
             and s = "u ''http://localhost/v1''"]
  by (simp add: DifyClient_init_def rstrip_def chat_request_def demo_world_def Let_def u_def)

section \<open>Writing the log\<close>


lemma demo_world_denying_simps [simp]:
  "json_files (demo_world_denying e e2) = Map.empty"
  "read_err (demo_world_denying e e2) = (\<lambda>p. None)"
  "ticks (demo_world_denying e e2) = 0" "clock (demo_world_denying e e2) = demo_clock"
  "stdout (demo_world_denying e e2) = []" "home (demo_world_denying e e2) = u ''/home/me''"
  "write_err (demo_world_denying e e2) (u ''/app/dify_chat_log.json'') = e"
  "write_err (demo_world_denying e e2) (u ''/home/me/Desktop/dify_chat_log.json'') = e2"
  by (simp_all add: demo_world_denying_def demo_world_def u_def)

lemma demo_desktop_file [simp]:
  "desktop_file (demo_world_denying e e2) (u ''dify_chat_log.json'')
     = u ''/home/me/Desktop/dify_chat_log.json''"
  by (simp add: desktop_file_def path_join_def u_def)

lemma demo_load_logs [simp]: "load_logs demo_client (demo_world_denying e e2) = Inr (JArr [])"
  by (simp add: load_logs_def)






section \<open>Loading the questions\<close>

lemma strip_empty_iff: "strip s = [] \<longleftrightarrow> (\<forall>c\<in>set s. isspace c)"
proof
  assume "strip s = []"
  then have "\<forall>x\<in>set (dropWhile isspace s). isspace x"
    by (simp add: strip_def rstrip_def dropWhile_eq_Nil_conv)
  then have "dropWhile isspace s = []"
    using hd_dropWhile [of isspace s] by (cases "dropWhile isspace s") auto
  then show "\<forall>c\<in>set s. isspace c" by (simp add: dropWhile_eq_Nil_conv)
next
  assume "\<forall>c\<in>set s. isspace c"
  then show "strip s = []" by (auto simp: strip_def rstrip_def dest: set_dropWhileD)
qed

lemma strip_decomp:
  "\<exists>a b. s = a @ strip s @ b \<and> (\<forall>c\<in>set a. isspace c) \<and> (\<forall>c\<in>set b. isspace c)"
proof -
  obtain b where b: "dropWhile isspace s = strip s @ b" "\<forall>c\<in>set b. isspace c"
    using rstrip_decomp [of "dropWhile isspace s" isspace] by (auto simp: strip_def)
  have "s = takeWhile isspace s @ dropWhile isspace s" by simp
  with b have "s = takeWhile isspace s @ strip s @ b" by simp
  moreover have "\<forall>c\<in>set (takeWhile isspace s). isspace c" by (auto dest: set_takeWhileD)
  ultimately show ?thesis using b(2) by blast
qed

lemma strip_ends:
  assumes "strip s \<noteq> []"
  shows "\<not> isspace (hd (strip s)) \<and> \<not> isspace (last (strip s))"
proof -
  let ?d = "dropWhile isspace s"
  have l: "\<not> isspace (last (strip s))"
    using rstrip_no_trailing [of isspace ?d] assms by (simp add: strip_def)
  have "?d \<noteq> []" using assms by (cases ?d) (simp_all add: strip_def rstrip_def)
  then have h: "\<not> isspace (hd ?d)" by (rule hd_dropWhile)
  obtain b where b: "?d = strip s @ b"
    using rstrip_decomp [of ?d isspace] by (auto simp: strip_def)
  then have "hd ?d = hd (strip s)" using assms by (metis hd_append2)
  with h l show ?thesis by simp
qed

lemma collect_questions_eq:
  "collect_questions ls acc = acc @ map strip (filter (\<lambda>l. \<exists>c\<in>set l. \<not> isspace c) ls)"
proof (induction ls arbitrary: acc)
  case Nil
  then show ?case by simp
next
  case (Cons l ls)
  show ?case
  proof (cases "strip l = []")
    case True
    then show ?thesis using Cons.IH [of acc] by (simp add: strip_empty_iff)
  next
    case False
    then have "\<exists>c\<in>set l. \<not> isspace c" by (simp add: strip_empty_iff)
    with False show ?thesis using Cons.IH [of "acc @ [strip l]"] by simp
  qed
qed

text \<open>
  Claim C6, as stated, fails: when a read raises after lines were delivered, the file is
  not readable and the diagnostic is printed, yet the questions collected before the
  failure are returned, not an empty list.
\<close>

theorem partial_read_returns_questions_read_so_far:
  "load_questions_from_file (u ''questions.txt'')
     (demo_world_questions
        (Yields [u ''Hello'' @ [0xA]] (Some (UnicodeDecodeError (u ''invalid start byte'')))))
   = ([u ''Hello''],
      print (msg_questions_read_error @ u ''invalid start byte'')
        (demo_world_questions
           (Yields [u ''Hello'' @ [0xA]] (Some (UnicodeDecodeError (u ''invalid start byte''))))))"
  by (simp add: load_questions_from_file_def demo_world_questions_def strip_def rstrip_def
        isspace_def u_def)

text \<open>
  Claim C6, amended. For a file that is read to its end, \<open>load_questions_from_file\<close>
  returns its lines in their order, each with the whitespace at both ends removed, without
  the lines that hold whitespace only, and prints nothing. When the file cannot be opened
  it prints a diagnostic and returns the empty list. When a read raises after some lines
  were delivered it prints the diagnostic and returns the questions of the lines read
  before. It never raises. In particular the lines \<open>What is 2+2?\<close>, an empty line and
  \<open>Hello\<close> give \<open>What is 2+2?\<close> and \<open>Hello\<close>.
\<close>

theorem load_questions_returns_lines_read:
  "(text_input w p = Yields ls None \<longrightarrow>
      load_questions_from_file p w =
        (map strip (filter (\<lambda>l. \<exists>c\<in>set l. \<not> isspace c) ls), w))
   \<and> (text_input w p = OpenRaises e \<longrightarrow>
      load_questions_from_file p w = ([], print (msg_questions_read_error @ str_exn e) w))
   \<and> (text_input w p = Yields ls (Some e) \<longrightarrow>
      load_questions_from_file p w =
        (map strip (filter (\<lambda>l. \<exists>c\<in>set l. \<not> isspace c) ls),
         print (msg_questions_read_error @ str_exn e) w))
   \<and> (\<exists>a b. l = a @ strip l @ b \<and> (\<forall>c\<in>set a. isspace c) \<and> (\<forall>c\<in>set b. isspace c))
   \<and> (strip l \<noteq> [] \<longrightarrow> \<not> isspace (hd (strip l)) \<and> \<not> isspace (last (strip l)))"
proof (intro conjI impI)
  assume "text_input w p = Yields ls None"
  then show "load_questions_from_file p w =
        (map strip (filter (\<lambda>l. \<exists>c\<in>set l. \<not> isspace c) ls), w)"
    by (simp add: load_questions_from_file_def collect_questions_eq)
next
  assume "text_input w p = OpenRaises e"
  then show "load_questions_from_file p w = ([], print (msg_questions_read_error @ str_exn e) w)"
    by (simp add: load_questions_from_file_def)
next
  assume "text_input w p = Yields ls (Some e)"
  then show "load_questions_from_file p w =
        (map strip (filter (\<lambda>l. \<exists>c\<in>set l. \<not> isspace c) ls),
         print (msg_questions_read_error @ str_exn e) w)"
    by (simp add: load_questions_from_file_def collect_questions_eq)
next
  show "\<exists>a b. l = a @ strip l @ b \<and> (\<forall>c\<in>set a. isspace c) \<and> (\<forall>c\<in>set b. isspace c)"
    by (rule strip_decomp)
next
  assume "strip l \<noteq> []"
  then show "\<not> isspace (hd (strip l))" by (simp add: strip_ends)
next
  assume "strip l \<noteq> []"
  then show "\<not> isspace (last (strip l))" by (simp add: strip_ends)
qed

theorem load_questions_returns_lines_read_witness:
  "fst (load_questions_from_file (u ''questions.txt'')
          (demo_world_questions
             (Yields [u ''What is 2+2?'' @ [0xA], [0xA], u ''Hello''] None)))
     = [u ''What is 2+2?'', u ''Hello'']
   \<and> load_questions_from_file (u ''questions.txt'')
        (demo_world_questions (OpenRaises (FileNotFoundError (u ''No such file''))))
     = ([], print (msg_questions_read_error @ u ''No such file'')
              (demo_world_questions (OpenRaises (FileNotFoundError (u ''No such file'')))))"
  using load_questions_returns_lines_read
          [where w = "demo_world_questions
                        (Yields [u ''What is 2+2?'' @ [0xA], [0xA], u ''Hello''] None)"
             and p = "u ''questions.txt''"
             and ls = "[u ''What is 2+2?'' @ [0xA], [0xA], u ''Hello'']"
             and l = "u ''Hello''", THEN conjunct1]
        load_questions_returns_lines_read
          [where w = "demo_world_questions (OpenRaises (FileNotFoundError (u ''No such file'')))"
             and p = "u ''questions.txt''" and e = "FileNotFoundError (u ''No such file'')"
             and l = "u ''Hello''", THEN conjunct2, THEN conjunct1]
  by (simp add: demo_world_questions_def strip_def rstrip_def isspace_def u_def)

section \<open>The batch loop\<close>

lemma process_question_fields:
  "question_number (fst (process_question c i q w)) = i"
  "question (fst (process_question c i q w)) = q"
  "answer (fst (process_question c i q w)) =
     (case fst (get_answer c q (print ([0xA] @ u ''['' @ str_nat i @ u ''] Question: '' @ q) w)) of
        Inl e \<Rightarrow> JStr (error_msg i e)
      | Inr a \<Rightarrow> a)"
  by (simp_all add: process_question_def Let_def now_def split: prod.splits sum.splits)

lemma batch_loop_acc:
  "fst (batch_loop c xs acc w) = acc @ fst (batch_loop c xs [] w) \<and>
   snd (batch_loop c xs acc w) = snd (batch_loop c xs [] w)"
proof (induction xs arbitrary: acc w)
  case Nil
  then show ?case by simp
next
  case (Cons x xs)
  obtain i q where x: "x = (i, q)" by (cases x)
  obtain r w1 where p: "process_question c i q w = (r, w1)" by (cases "process_question c i q w")
  from Cons.IH [of "acc @ [r]" w1] Cons.IH [of "[r]" w1]
  show ?case by (simp add: x p)
qed

lemma batch_loop_append:
  "batch_loop c (xs @ ys) acc w =
     batch_loop c ys (fst (batch_loop c xs acc w)) (snd (batch_loop c xs acc w))"
proof (induction xs arbitrary: acc w)
  case Nil
  then show ?case by simp
next
  case (Cons x xs)
  obtain i q where x: "x = (i, q)" by (cases x)
  obtain r w1 where p: "process_question c i q w = (r, w1)" by (cases "process_question c i q w")
  from Cons.IH [of "acc @ [r]" w1] show ?case by (simp add: x p)
qed

lemma batch_loop_numbering:
  "map question_number (fst (batch_loop c (List.enumerate n qs) [] w)) = [n..<n + length qs] \<and>
   map question (fst (batch_loop c (List.enumerate n qs) [] w)) = qs"
proof (induction qs arbitrary: n w)
  case Nil
  then show ?case by simp
next
  case (Cons q qs)
  obtain r w1 where p: "process_question c n q w = (r, w1)" by (cases "process_question c n q w")
  have r: "question_number r = n" "question r = q"
    using process_question_fields(1,2) [of c n q w] by (simp_all add: p)
  have "fst (batch_loop c (List.enumerate n (q # qs)) [] w) =
          r # fst (batch_loop c (List.enumerate (Suc n) qs) [] w1)"
    using batch_loop_acc [of c "List.enumerate (Suc n) qs" "[r]" w1] by (simp add: p)
  moreover have "[n..<n + length (q # qs)] = n # [Suc n..<Suc n + length qs]"
    by (subst upt_rec) simp
  ultimately show ?case using Cons.IH [of "Suc n" w1] r by simp
qed

lemma batch_loop_length:
  "length (fst (batch_loop c (List.enumerate n qs) [] w)) = length qs"
  using batch_loop_numbering [of c n qs w] by (metis length_map)

lemma batch_loop_nth:
  assumes "k < length qs"
  shows "fst (batch_loop c (List.enumerate (Suc 0) qs) [] w) ! k =
           fst (process_question c (Suc k) (qs ! k)
                  (snd (batch_loop c (List.enumerate (Suc 0) (take k qs)) [] w)))"
proof -
  let ?R = "fst (batch_loop c (List.enumerate (Suc 0) (take k qs)) [] w)"
  let ?W = "snd (batch_loop c (List.enumerate (Suc 0) (take k qs)) [] w)"
  obtain r w1 where p: "process_question c (Suc k) (qs ! k) ?W = (r, w1)"
    by (cases "process_question c (Suc k) (qs ! k) ?W")
  have len: "length ?R = k" using assms by (simp add: batch_loop_length)
  have "qs = take k qs @ qs ! k # drop (Suc k) qs"
    using assms by (simp add: Cons_nth_drop_Suc)
  then have "List.enumerate (Suc 0) qs =
      List.enumerate (Suc 0) (take k qs) @ (Suc k, qs ! k) # List.enumerate (Suc (Suc k)) (drop (Suc k) qs)"
    using assms enumerate_append_eq [of "Suc 0" "take k qs" "qs ! k # drop (Suc k) qs"] by simp
  then have "batch_loop c (List.enumerate (Suc 0) qs) [] w =
      batch_loop c ((Suc k, qs ! k) # List.enumerate (Suc (Suc k)) (drop (Suc k) qs)) ?R ?W"
    by (simp add: batch_loop_append)
  then have "fst (batch_loop c (List.enumerate (Suc 0) qs) [] w) =
      (?R @ [r]) @ fst (batch_loop c (List.enumerate (Suc (Suc k)) (drop (Suc k) qs)) [] w1)"
    using batch_loop_acc [of c "List.enumerate (Suc (Suc k)) (drop (Suc k) qs)" "?R @ [r]" w1]
    by (simp add: p)
  then have "fst (batch_loop c (List.enumerate (Suc 0) qs) [] w) ! k = r"
    using len by (simp add: nth_append)
  then show ?thesis by (simp add: p)
qed

lemma substring_prefix: "substring s (s @ b)"
proof (cases "s @ b")
  case Nil
  then show ?thesis by simp
next
  case (Cons x xs)
  have "take (length s) (s @ b) = s" by simp
  then have "take (length s) (x # xs) = s" by (simp only: Cons)
  then show ?thesis by (simp only: Cons substring.simps) simp
qed

lemma substring_append: "substring s (a @ s @ b)"
proof (induction a)
  case Nil
  then show ?case by (simp add: substring_prefix)
next
  case (Cons x a)
  then show ?case by simp
qed

text \<open>
  Claim C4. For questions q1..qK the loop ends with exactly K rows, numbered 1..K, whose
  questions are q1..qK in that order. The row of a question whose call of \<open>get_answer\<close>
  raised holds as answer the error string made from the number of that question and the
  exception, in which the number occurs; the row of a question whose call returned holds
  the value returned. A call that raises does not end the loop: the rows after it are
  there.
\<close>

theorem batch_loop_one_row_per_question:
  fixes c qs w
  defines "rows \<equiv> fst (batch_loop c (List.enumerate 1 qs) [] w)"
  shows "length rows = length qs
       \<and> map question_number rows = [1..<Suc (length qs)]
       \<and> map question rows = qs
       \<and> (\<forall>k<length qs.
            answer (rows ! k) =
              (case fst (get_answer c (qs ! k) (call_world c qs w k)) of
                 Inl e \<Rightarrow> JStr (error_msg (Suc k) e)
               | Inr a \<Rightarrow> a))
       \<and> substring (str_nat i) (error_msg i e)"
proof -
  have 1: "length rows = length qs" by (simp add: rows_def batch_loop_length)
  have 2: "map question_number rows = [1..<Suc (length qs)]"
    using batch_loop_numbering [of c 1 qs w] by (simp add: rows_def)
  have 3: "map question rows = qs"
    using batch_loop_numbering [of c 1 qs w] by (simp add: rows_def)
  have 4: "\<forall>k<length qs.
            answer (rows ! k) =
              (case fst (get_answer c (qs ! k) (call_world c qs w k)) of
                 Inl e \<Rightarrow> JStr (error_msg (Suc k) e)
               | Inr a \<Rightarrow> a)"
    by (simp add: rows_def batch_loop_nth process_question_fields(3) call_world_def)
  have 5: "substring (str_nat i) (error_msg i e)"
    unfolding error_msg_def by (rule substring_append)
  from 1 2 3 4 5 show ?thesis by blast
qed

theorem batch_loop_one_row_per_question_witness:
  "map question_number
     (fst (batch_loop demo_client (List.enumerate 1 [u ''hi''])
             [] (demo_world (JsonBody (JObj [(u ''data'', JNull)]))))) = [1]
   \<and> map question
     (fst (batch_loop demo_client (List.enumerate 1 [u ''hi''])
             [] (demo_world (JsonBody (JObj [(u ''data'', JNull)]))))) = [u ''hi'']
   \<and> answer
     (fst (batch_loop demo_client (List.enumerate 1 [u ''hi''])
             [] (demo_world (JsonBody (JObj [(u ''data'', JNull)])))) ! 0)
     = JStr (error_msg 1 (TypeError (u ''argument of type '' @ apos @ u ''NoneType'' @ apos
                                      @ u '' is not iterable'')))"
  using batch_loop_one_row_per_question
          [where c = demo_client and qs = "[u ''hi'']"
             and w = "demo_world (JsonBody (JObj [(u ''data'', JNull)]))"]
  by (simp add: call_world_def get_answer_def send_message_success [where es = "[]"]
        load_logs_def answer_of_def u_def)

section \<open>The report\<close>








end
